theory Spec2Isabelle
  imports Main
begin

section \<open>Python values\<close>

text \<open>
  The tracker's answers are decoded JSON: \<open>None\<close>, booleans, integers, strings, lists
  and dictionaries. Strings are lists of bytes (UTF-8); a dictionary is the list of its
  items, read with \<open>map_of\<close>. Floating-point numbers are outside the embedding.
\<close>

datatype json =
    JNull
  | JBool bool
  | JInt int
  | JStr string
  | JArr "json list"
  | JObj "(string \<times> json) list"

text \<open>The exceptions that the modelled code can meet.\<close>

datatype exn =
    RequestException string
  | AttributeError
  | TypeError
  | ValueError
  | OtherException string

text \<open>Python's truth value of a decoded JSON value (\<open>if x:\<close>, \<open>not x\<close>).\<close>

fun truthy :: "json \<Rightarrow> bool" where
  "truthy JNull = False"
| "truthy (JBool b) = b"
| "truthy (JInt i) = (i \<noteq> 0)"
| "truthy (JStr s) = (s \<noteq> [])"
| "truthy (JArr xs) = (xs \<noteq> [])"
| "truthy (JObj kvs) = (kvs \<noteq> [])"

text \<open>
  \<open>d.get(k, default)\<close>: only a dictionary has the method; on any other value the
  attribute lookup raises \<open>AttributeError\<close>.
\<close>

fun py_get :: "json \<Rightarrow> string \<Rightarrow> json \<Rightarrow> exn + json" where
  "py_get (JObj kvs) k dflt = Inr (case map_of kvs k of Some v \<Rightarrow> v | None \<Rightarrow> dflt)"
| "py_get _ k dflt = Inl AttributeError"

text \<open>\<open>sep.join(xs)\<close> on a list of strings.\<close>

fun join :: "string \<Rightarrow> string list \<Rightarrow> string" where
  "join sep [] = []"
| "join sep [x] = x"
| "join sep (x # y # ys) = x @ sep @ join sep (y # ys)"

text \<open>\<open>str(n)\<close> of an integer: decimal digits, with a minus sign when negative.\<close>

definition digit_char :: "nat \<Rightarrow> char" where
  "digit_char n = ''0123456789'' ! n"

function show_nat :: "nat \<Rightarrow> string" where
  "show_nat n = (if n < 10 then [digit_char n] else show_nat (n div 10) @ [digit_char (n mod 10)])"
  by pat_completeness auto
termination
  by (relation "measure id") auto

declare show_nat.simps [simp del]

definition show_int :: "int \<Rightarrow> string" where
  "show_int i = (if i < 0 then CHR ''-'' # show_nat (nat (- i)) else show_nat (nat i))"

section \<open>Query construction (client.py)\<close>

text \<open>
  \<open>get_my_issues\<close>, lines 84 to 96: the JQL text built before the search is made.
  \<open>status_filter\<close> and \<open>project_keys\<close> are \<open>Optional[List[str]]\<close>; \<open>if status_filter:\<close>
  is false for \<open>None\<close> and for the empty list.
\<close>

definition get_my_issues_jql :: "string list option \<Rightarrow> string list option \<Rightarrow> string" where
  "get_my_issues_jql status_filter project_keys =
     (let jql_parts = [''assignee = currentUser()''];
          jql_parts =
            (case status_filter of
               Some (s # ss) \<Rightarrow>
                 (let status_list = join [CHR 0x27, CHR '','', CHR '' '', CHR 0x27] (s # ss)
                  in jql_parts @ [''status IN ('' @ [CHR 0x27] @ status_list @ [CHR 0x27] @ '')''])
             | _ \<Rightarrow> jql_parts);
          jql_parts =
            (case project_keys of
               Some (p # ps) \<Rightarrow>
                 (let project_list = join [CHR 0x27, CHR '','', CHR '' '', CHR 0x27] (p # ps)
                  in jql_parts @ [''project IN ('' @ [CHR 0x27] @ project_list @ [CHR 0x27] @ '')''])
             | _ \<Rightarrow> jql_parts);
          jql = join '' AND '' jql_parts
      in jql @ '' ORDER BY created DESC'')"

text \<open>\<open>get_reported_by_me\<close>, lines 113 to 120.\<close>

definition get_reported_by_me_jql :: "string list option \<Rightarrow> string" where
  "get_reported_by_me_jql status_filter =
     (let jql_parts = [''reporter = currentUser()''];
          jql_parts =
            (case status_filter of
               Some (s # ss) \<Rightarrow>
                 (let status_list = join [CHR 0x27, CHR '','', CHR '' '', CHR 0x27] (s # ss)
                  in jql_parts @ [''status IN ('' @ [CHR 0x27] @ status_list @ [CHR 0x27] @ '')''])
             | _ \<Rightarrow> jql_parts);
          jql = join '' AND '' jql_parts
      in jql @ '' ORDER BY created DESC'')"

text \<open>\<open>get_recent_activity\<close>, line 135: one f-string with the number of days.\<close>

definition get_recent_activity_jql :: "int \<Rightarrow> string" where
  "get_recent_activity_jql days =
     ''(assignee = currentUser() OR reporter = currentUser()) AND updated >= -''
       @ show_int days @ ''d ORDER BY updated DESC''"

text \<open>
  Reading a query expression: \<open>occurs_at_top w d s\<close> holds when the word \<open>w\<close> occurs
  in \<open>s\<close> outside every pair of parentheses, \<open>d\<close> being the number of parentheses
  open where \<open>s\<close> starts.
\<close>

fun occurs_at_top :: "string \<Rightarrow> nat \<Rightarrow> string \<Rightarrow> bool" where
  "occurs_at_top w d [] = False"
| "occurs_at_top w d (c # cs) =
     (if c = CHR ''('' then occurs_at_top w (Suc d) cs
      else if c = CHR '')'' then occurs_at_top w (d - 1) cs
      else (d = 0 \<and> take (length w) (c # cs) = w) \<or> occurs_at_top w d cs)"

text \<open>A status value as the query carries it: between two single quotes.\<close>

definition quoted :: "string \<Rightarrow> string" where
  "quoted s = [CHR 0x27] @ s @ [CHR 0x27]"

section \<open>Library functions\<close>

text \<open>
  Raising and propagating: \<open>Inl e\<close> is a raised exception, and \<open>ebind\<close> runs the
  next step only when the previous one returned.
\<close>

definition ebind :: "exn + 'a \<Rightarrow> ('a \<Rightarrow> exn + 'b) \<Rightarrow> exn + 'b" where
  "ebind m f = (case m of Inl e \<Rightarrow> Inl e | Inr x \<Rightarrow> f x)"

text \<open>
  The functions of the Python library that the client calls are parameters of the model:
  \<open>datetime.fromisoformat\<close>, \<open>dt.strftime("%Y-%m-%d %H:%M")\<close>, and the text that
  \<open>str()\<close> gives for a list or a dictionary. Each may raise.
\<close>

record 'dt pylib =
  fromisoformat :: "string \<Rightarrow> exn + 'dt"
  strftime_ymd_hm :: "'dt \<Rightarrow> exn + string"
  repr_container :: "json \<Rightarrow> string"

text \<open>\<open>str(v)\<close>, as an f-string applies it to a decoded JSON value.\<close>

definition py_str :: "'dt pylib \<Rightarrow> json \<Rightarrow> string" where
  "py_str lib v =
     (case v of
        JNull \<Rightarrow> ''None''
      | JBool b \<Rightarrow> (if b then ''True'' else ''False'')
      | JInt i \<Rightarrow> show_int i
      | JStr s \<Rightarrow> s
      | JArr xs \<Rightarrow> repr_container lib v
      | JObj kvs \<Rightarrow> repr_container lib v)"

text \<open>
  \<open>s.replace(c, new)\<close> for a pattern of one character, the only use the client makes:
  every occurrence is replaced.
\<close>

definition replace_char :: "char \<Rightarrow> string \<Rightarrow> string \<Rightarrow> string" where
  "replace_char c new s = concat (map (\<lambda>x. if x = c then new else [x]) s)"

section \<open>Normalization (client.py)\<close>

text \<open>The two sentinels of \<open>_get_user_display_name\<close>, as UTF-8 bytes.\<close>

definition unset_sentinel :: string where
  "unset_sentinel =
     [CHR 0xE6, CHR 0x9C, CHR 0xAA, CHR 0xE8, CHR 0xA8, CHR 0xAD, CHR 0xE5, CHR 0xAE, CHR 0x9A]"

definition unknown_sentinel :: string where
  "unknown_sentinel = [CHR 0xE4, CHR 0xB8, CHR 0x8D, CHR 0xE6, CHR 0x98, CHR 0x8E]"

text \<open>\<open>_get_user_display_name\<close>, lines 213 to 217.\<close>

definition get_user_display_name :: "json \<Rightarrow> exn + json" where
  "get_user_display_name user_data =
     (if \<not> truthy user_data then Inr (JStr unset_sentinel)
      else ebind (py_get user_data ''emailAddress'' (JStr unknown_sentinel))
             (\<lambda>email. py_get user_data ''displayName'' email))"

text \<open>
  \<open>_format_date\<close>, lines 219 to 229. The body of the \<open>try\<close> is \<open>format_date_try\<close>;
  \<open>except Exception\<close> catches whatever it raises and returns the argument itself.
\<close>

definition format_date_try :: "'dt pylib \<Rightarrow> json \<Rightarrow> exn + json" where
  "format_date_try lib date_str =
     (case date_str of
        JStr s \<Rightarrow>
          ebind (fromisoformat lib (replace_char CHR ''Z'' ''+00:00'' s))
            (\<lambda>dt. ebind (strftime_ymd_hm lib dt) (\<lambda>out. Inr (JStr out)))
      | _ \<Rightarrow> Inl AttributeError)"

definition format_date :: "'dt pylib \<Rightarrow> json \<Rightarrow> json" where
  "format_date lib date_str =
     (if \<not> truthy date_str then JStr ''''
      else (case format_date_try lib date_str of
              Inr v \<Rightarrow> v
            | Inl e \<Rightarrow> date_str))"

text \<open>The formatted issue: the dictionary that \<open>_format_issues\<close> builds, with its twelve keys.\<close>

record issue =
  key :: json
  summary :: json
  status :: json
  priority :: json
  assignee :: json
  reporter :: json
  project :: json
  issue_type :: json
  created :: json
  updated :: json
  due_date :: json
  url :: string

text \<open>The body of the loop of \<open>_format_issues\<close>, lines 192 to 207.\<close>

definition format_issue :: "'dt pylib \<Rightarrow> string \<Rightarrow> json \<Rightarrow> exn + issue" where
  "format_issue lib server_url raw =
     ebind (py_get raw ''fields'' (JObj [])) (\<lambda>fields.
     ebind (py_get raw ''key'' JNull) (\<lambda>k.
     ebind (py_get fields ''summary'' JNull) (\<lambda>su.
     ebind (ebind (py_get fields ''status'' (JObj [])) (\<lambda>d. py_get d ''name'' JNull)) (\<lambda>st.
     ebind (ebind (py_get fields ''priority'' (JObj [])) (\<lambda>d. py_get d ''name'' JNull)) (\<lambda>pr.
     ebind (ebind (py_get fields ''assignee'' JNull) get_user_display_name) (\<lambda>asg.
     ebind (ebind (py_get fields ''reporter'' JNull) get_user_display_name) (\<lambda>rep.
     ebind (ebind (py_get fields ''project'' (JObj [])) (\<lambda>d. py_get d ''name'' JNull)) (\<lambda>pj.
     ebind (ebind (py_get fields ''issuetype'' (JObj [])) (\<lambda>d. py_get d ''name'' JNull)) (\<lambda>it.
     ebind (py_get fields ''created'' JNull) (\<lambda>cr.
     ebind (py_get fields ''updated'' JNull) (\<lambda>up.
     ebind (py_get fields ''duedate'' JNull) (\<lambda>du.
     ebind (py_get raw ''key'' JNull) (\<lambda>k2.
       Inr \<lparr> key = k, summary = su, status = st, priority = pr, assignee = asg,
             reporter = rep, project = pj, issue_type = it,
             created = format_date lib cr, updated = format_date lib up,
             due_date = format_date lib du,
             url = server_url @ ''/browse/'' @ py_str lib k2 \<rparr>)))))))))))))"

text \<open>
  \<open>_format_issues\<close>, lines 189 to 211: the loop appends one formatted issue for each raw
  record, in order; an exception raised for one record leaves the function.
\<close>

fun format_issues_loop :: "'dt pylib \<Rightarrow> string \<Rightarrow> issue list \<Rightarrow> json list \<Rightarrow> exn + issue list" where
  "format_issues_loop lib server_url formatted_issues [] = Inr formatted_issues"
| "format_issues_loop lib server_url formatted_issues (raw # rest) =
     ebind (format_issue lib server_url raw)
       (\<lambda>formatted_issue.
          format_issues_loop lib server_url (formatted_issues @ [formatted_issue]) rest)"

definition format_issues :: "'dt pylib \<Rightarrow> string \<Rightarrow> json list \<Rightarrow> exn + issue list" where
  "format_issues lib server_url issues = format_issues_loop lib server_url [] issues"

section \<open>A library instance for concrete runs\<close>

text \<open>
  Concrete inputs need concrete library functions. This instance reads the one shape
  \<open>YYYY-MM-DDTHH:MM:SS+HH:MM\<close> (any character may stand for the \<open>T\<close>), which is what
  \<open>isoformat()\<close> prints for a datetime with a zone and whole seconds, checks the ranges as
  the constructor of \<open>datetime\<close> does, and raises \<open>ValueError\<close> on any other text. It
  prints a list or a dictionary without the escapes Python applies inside string literals.
\<close>

record datetime =
  dt_year :: nat
  dt_month :: nat
  dt_day :: nat
  dt_hour :: nat
  dt_minute :: nat
  dt_second :: nat
  dt_utcoffset :: int

definition digit_val :: "char \<Rightarrow> nat option" where
  "digit_val c =
     map_of [(CHR ''0'', 0), (CHR ''1'', 1), (CHR ''2'', 2), (CHR ''3'', 3), (CHR ''4'', 4),
             (CHR ''5'', 5), (CHR ''6'', 6), (CHR ''7'', 7), (CHR ''8'', 8), (CHR ''9'', 9)] c"

fun parse_digits :: "nat \<Rightarrow> string \<Rightarrow> nat option" where
  "parse_digits acc [] = Some acc"
| "parse_digits acc (c # cs) =
     (case digit_val c of None \<Rightarrow> None | Some d \<Rightarrow> parse_digits (10 * acc + d) cs)"

definition slice :: "nat \<Rightarrow> nat \<Rightarrow> string \<Rightarrow> string" where
  "slice i j s = take (j - i) (drop i s)"

definition is_leap :: "nat \<Rightarrow> bool" where
  "is_leap y = (y mod 4 = 0 \<and> (y mod 100 \<noteq> 0 \<or> y mod 400 = 0))"

definition days_in_month :: "nat \<Rightarrow> nat \<Rightarrow> nat" where
  "days_in_month y m =
     (if m = 2 then (if is_leap y then 29 else 28)
      else if m = 4 \<or> m = 6 \<or> m = 9 \<or> m = 11 then 30 else 31)"

definition std_fromisoformat :: "string \<Rightarrow> exn + datetime" where
  "std_fromisoformat s =
     (if length s = 25 \<and> s ! 4 = CHR ''-'' \<and> s ! 7 = CHR ''-'' \<and> s ! 13 = CHR '':''
         \<and> s ! 16 = CHR '':'' \<and> (s ! 19 = CHR ''+'' \<or> s ! 19 = CHR ''-'') \<and> s ! 22 = CHR '':''
      then
        (case (parse_digits 0 (slice 0 4 s), parse_digits 0 (slice 5 7 s),
               parse_digits 0 (slice 8 10 s), parse_digits 0 (slice 11 13 s),
               parse_digits 0 (slice 14 16 s), parse_digits 0 (slice 17 19 s),
               parse_digits 0 (slice 20 22 s), parse_digits 0 (slice 23 25 s)) of
           (Some y, Some m, Some d, Some h, Some mi, Some sec, Some zh, Some zm) \<Rightarrow>
             (if 1 \<le> y \<and> 1 \<le> m \<and> m \<le> 12 \<and> 1 \<le> d \<and> d \<le> days_in_month y m
                 \<and> h < 24 \<and> mi < 60 \<and> sec < 60 \<and> zh < 24 \<and> zm < 60
              then Inr \<lparr> dt_year = y, dt_month = m, dt_day = d, dt_hour = h, dt_minute = mi,
                         dt_second = sec,
                         dt_utcoffset = (if s ! 19 = CHR ''-'' then - 1 else 1)
                                          * (60 * int zh + int zm) \<rparr>
              else Inl ValueError)
         | _ \<Rightarrow> Inl ValueError)
      else Inl ValueError)"

definition pad2 :: "nat \<Rightarrow> string" where
  "pad2 n = [digit_char (n div 10 mod 10), digit_char (n mod 10)]"

definition pad4 :: "nat \<Rightarrow> string" where
  "pad4 n = [digit_char (n div 1000 mod 10), digit_char (n div 100 mod 10),
             digit_char (n div 10 mod 10), digit_char (n mod 10)]"

definition std_strftime :: "datetime \<Rightarrow> exn + string" where
  "std_strftime dt =
     Inr (pad4 (dt_year dt) @ ''-'' @ pad2 (dt_month dt) @ ''-'' @ pad2 (dt_day dt) @ '' ''
            @ pad2 (dt_hour dt) @ '':'' @ pad2 (dt_minute dt))"

fun std_repr :: "json \<Rightarrow> string" where
  "std_repr JNull = ''None''"
| "std_repr (JBool b) = (if b then ''True'' else ''False'')"
| "std_repr (JInt i) = show_int i"
| "std_repr (JStr s) = [CHR 0x27] @ s @ [CHR 0x27]"
| "std_repr (JArr xs) = ''['' @ join '', '' (map std_repr xs) @ '']''"
| "std_repr (JObj kvs) =
     ''{'' @ join '', '' (map (\<lambda>(k, v). [CHR 0x27] @ k @ [CHR 0x27] @ '': '' @ std_repr v) kvs) @ ''}''"

definition std_lib :: "datetime pylib" where
  "std_lib = \<lparr> fromisoformat = std_fromisoformat, strftime_ymd_hm = std_strftime,
               repr_container = std_repr \<rparr>"

section \<open>Raw records with missing fields\<close>

text \<open>The formatted issue of a record that has none of the fields.\<close>

definition fallback_issue :: "string \<Rightarrow> issue" where
  "fallback_issue server_url =
     \<lparr> key = JNull, summary = JNull, status = JNull, priority = JNull,
       assignee = JStr unset_sentinel, reporter = JStr unset_sentinel, project = JNull,
       issue_type = JNull, created = JStr '''', updated = JStr '''', due_date = JStr '''',
       url = server_url @ ''/browse/None'' \<rparr>"

text \<open>
  A raw record is well shaped when it is a dictionary, its \<open>fields\<close>, when present, is
  a dictionary, each of status, priority, project and issuetype, when present, is a
  dictionary, and each of assignee and reporter, when present, is a dictionary or a value
  that Python reads as false.
\<close>

definition is_obj :: "json \<Rightarrow> bool" where
  "is_obj v = (case v of JObj kvs \<Rightarrow> True | _ \<Rightarrow> False)"

definition well_shaped_fields :: "(string \<times> json) list \<Rightarrow> bool" where
  "well_shaped_fields fs =
     (list_all (\<lambda>k. case map_of fs k of None \<Rightarrow> True | Some v \<Rightarrow> is_obj v)
        [''status'', ''priority'', ''project'', ''issuetype''] \<and>
      list_all (\<lambda>k. case map_of fs k of None \<Rightarrow> True | Some v \<Rightarrow> is_obj v \<or> \<not> truthy v)
        [''assignee'', ''reporter''])"

definition well_shaped :: "json \<Rightarrow> bool" where
  "well_shaped raw =
     (case raw of
        JObj items \<Rightarrow>
          (case map_of items ''fields'' of
             None \<Rightarrow> True
           | Some (JObj fs) \<Rightarrow> well_shaped_fields fs
           | Some _ \<Rightarrow> False)
      | _ \<Rightarrow> False)"

section \<open>Connectivity check and search (client.py)\<close>

text \<open>
  What the client reads of a \<open>requests\<close> response: the status code, what
  \<open>raise_for_status()\<close> does and what \<open>json()\<close> does. Both calls may raise.
\<close>

record Response =
  status_code :: int
  raise_for_status :: "exn + unit"
  json_body :: "exn + json"

text \<open>
  A response as the library builds it: \<open>raise_for_status()\<close> raises \<open>HTTPError\<close>, a
  \<open>RequestException\<close>, for the status codes from 400 to 599, with a message that names
  the code, the reason phrase and the address.
\<close>

definition std_response :: "int \<Rightarrow> string \<Rightarrow> string \<Rightarrow> (exn + json) \<Rightarrow> Response" where
  "std_response code reason address body =
     \<lparr> status_code = code,
       raise_for_status =
         (if 400 \<le> code \<and> code < 500
          then Inl (RequestException
                 (show_int code @ '' Client Error: '' @ reason @ '' for url: '' @ address))
          else if 500 \<le> code \<and> code < 600
          then Inl (RequestException
                 (show_int code @ '' Server Error: '' @ reason @ '' for url: '' @ address))
          else Inr ()),
       json_body = body \<rparr>"

text \<open>
  \<open>str(e)\<close> of a caught exception: the message it carries. The exceptions that the
  embedding carries without a message print as the empty text.
\<close>

fun exn_str :: "exn \<Rightarrow> string" where
  "exn_str (RequestException m) = m"
| "exn_str (OtherException m) = m"
| "exn_str e = []"

text \<open>The texts that \<open>test_connection\<close> and \<open>_search_issues\<close> print, as UTF-8 bytes.\<close>

definition msg_status_code :: string where
  "msg_status_code =
     [CHR 0xE6, CHR 0x8E, CHR 0xA5, CHR 0xE7, CHR 0xB6, CHR 0x9A, CHR 0xE3, CHR 0x83,
      CHR 0x86, CHR 0xE3, CHR 0x82, CHR 0xB9, CHR 0xE3, CHR 0x83, CHR 0x88, CHR 0xE3,
      CHR 0x82, CHR 0xB9, CHR 0xE3, CHR 0x83, CHR 0x86, CHR 0xE3, CHR 0x83, CHR 0xBC,
      CHR 0xE3, CHR 0x82, CHR 0xBF, CHR 0xE3, CHR 0x82, CHR 0xB9, CHR 0xE3, CHR 0x82,
      CHR 0xB3, CHR 0xE3, CHR 0x83, CHR 0xBC, CHR 0xE3, CHR 0x83, CHR 0x89, CHR 0x3A,
      CHR 0x20]"

definition msg_auth_error :: string where
  "msg_auth_error =
     [CHR 0xE8, CHR 0xAA, CHR 0x8D, CHR 0xE8, CHR 0xA8, CHR 0xBC, CHR 0xE3, CHR 0x82,
      CHR 0xA8, CHR 0xE3, CHR 0x83, CHR 0xA9, CHR 0xE3, CHR 0x83, CHR 0xBC, CHR 0x3A,
      CHR 0x20, CHR 0xE3, CHR 0x83, CHR 0xA6, CHR 0xE3, CHR 0x83, CHR 0xBC, CHR 0xE3,
      CHR 0x82, CHR 0xB6, CHR 0xE3, CHR 0x83, CHR 0xBC, CHR 0xE5, CHR 0x90, CHR 0x8D,
      CHR 0xE3, CHR 0x81, CHR 0xBE, CHR 0xE3, CHR 0x81, CHR 0x9F, CHR 0xE3, CHR 0x81,
      CHR 0xAF, CHR 0x41, CHR 0x50, CHR 0x49, CHR 0xE3, CHR 0x83, CHR 0x88, CHR 0xE3,
      CHR 0x83, CHR 0xBC, CHR 0xE3, CHR 0x82, CHR 0xAF, CHR 0xE3, CHR 0x83, CHR 0xB3,
      CHR 0xE3, CHR 0x81, CHR 0x8C, CHR 0xE6, CHR 0xAD, CHR 0xA3, CHR 0xE3, CHR 0x81,
      CHR 0x97, CHR 0xE3, CHR 0x81, CHR 0x8F, CHR 0xE3, CHR 0x81, CHR 0x82, CHR 0xE3,
      CHR 0x82, CHR 0x8A, CHR 0xE3, CHR 0x81, CHR 0xBE, CHR 0xE3, CHR 0x81, CHR 0x9B,
      CHR 0xE3, CHR 0x82, CHR 0x93, CHR 0xE3, CHR 0x80, CHR 0x82]"

definition msg_url_error :: string where
  "msg_url_error =
     [CHR 0x55, CHR 0x52, CHR 0x4C, CHR 0xE3, CHR 0x81, CHR 0x8C, CHR 0xE6, CHR 0xAD,
      CHR 0xA3, CHR 0xE3, CHR 0x81, CHR 0x97, CHR 0xE3, CHR 0x81, CHR 0x8F, CHR 0xE3,
      CHR 0x81, CHR 0x82, CHR 0xE3, CHR 0x82, CHR 0x8A, CHR 0xE3, CHR 0x81, CHR 0xBE,
      CHR 0xE3, CHR 0x81, CHR 0x9B, CHR 0xE3, CHR 0x82, CHR 0x93, CHR 0xE3, CHR 0x80,
      CHR 0x82, CHR 0x4A, CHR 0x69, CHR 0x72, CHR 0x61, CHR 0xE3, CHR 0x82, CHR 0xB5,
      CHR 0xE3, CHR 0x83, CHR 0xBC, CHR 0xE3, CHR 0x83, CHR 0x90, CHR 0xE3, CHR 0x83,
      CHR 0xBC, CHR 0xE3, CHR 0x81, CHR 0xAE, CHR 0x55, CHR 0x52, CHR 0x4C, CHR 0xE3,
      CHR 0x82, CHR 0x92, CHR 0xE7, CHR 0xA2, CHR 0xBA, CHR 0xE8, CHR 0xAA, CHR 0x8D,
      CHR 0xE3, CHR 0x81, CHR 0x97, CHR 0xE3, CHR 0x81, CHR 0xA6, CHR 0xE3, CHR 0x81,
      CHR 0x8F, CHR 0xE3, CHR 0x81, CHR 0xA0, CHR 0xE3, CHR 0x81, CHR 0x95, CHR 0xE3,
      CHR 0x81, CHR 0x84, CHR 0xE3, CHR 0x80, CHR 0x82]"

definition msg_failed :: string where
  "msg_failed =
     [CHR 0xE6, CHR 0x8E, CHR 0xA5, CHR 0xE7, CHR 0xB6, CHR 0x9A, CHR 0xE3, CHR 0x81,
      CHR 0xAB, CHR 0xE5, CHR 0xA4, CHR 0xB1, CHR 0xE6, CHR 0x95, CHR 0x97, CHR 0xE3,
      CHR 0x81, CHR 0x97, CHR 0xE3, CHR 0x81, CHR 0xBE, CHR 0xE3, CHR 0x81, CHR 0x97,
      CHR 0xE3, CHR 0x81, CHR 0x9F, CHR 0xE3, CHR 0x80, CHR 0x82, CHR 0xE3, CHR 0x82,
      CHR 0xB9, CHR 0xE3, CHR 0x83, CHR 0x86, CHR 0xE3, CHR 0x83, CHR 0xBC, CHR 0xE3,
      CHR 0x82, CHR 0xBF, CHR 0xE3, CHR 0x82, CHR 0xB9, CHR 0xE3, CHR 0x82, CHR 0xB3,
      CHR 0xE3, CHR 0x83, CHR 0xBC, CHR 0xE3, CHR 0x83, CHR 0x89, CHR 0x3A, CHR 0x20]"

definition msg_succeeded :: string where
  "msg_succeeded =
     [CHR 0xE6, CHR 0x8E, CHR 0xA5, CHR 0xE7, CHR 0xB6, CHR 0x9A, CHR 0xE3, CHR 0x81,
      CHR 0xAB, CHR 0xE6, CHR 0x88, CHR 0x90, CHR 0xE5, CHR 0x8A, CHR 0x9F, CHR 0xE3,
      CHR 0x81, CHR 0x97, CHR 0xE3, CHR 0x81, CHR 0xBE, CHR 0xE3, CHR 0x81, CHR 0x97,
      CHR 0xE3, CHR 0x81, CHR 0x9F, CHR 0xE3, CHR 0x80, CHR 0x82]"

definition msg_connection_error :: string where
  "msg_connection_error =
     [CHR 0xE6, CHR 0x8E, CHR 0xA5, CHR 0xE7, CHR 0xB6, CHR 0x9A, CHR 0xE3, CHR 0x82,
      CHR 0xA8, CHR 0xE3, CHR 0x83, CHR 0xA9, CHR 0xE3, CHR 0x83, CHR 0xBC, CHR 0x3A,
      CHR 0x20]"

definition msg_request_error :: string where
  "msg_request_error =
     [CHR 0x41, CHR 0x50, CHR 0x49, CHR 0x20, CHR 0xE3, CHR 0x83, CHR 0xAA, CHR 0xE3,
      CHR 0x82, CHR 0xAF, CHR 0xE3, CHR 0x82, CHR 0xA8, CHR 0xE3, CHR 0x82, CHR 0xB9,
      CHR 0xE3, CHR 0x83, CHR 0x88, CHR 0xE3, CHR 0x82, CHR 0xA8, CHR 0xE3, CHR 0x83,
      CHR 0xA9, CHR 0xE3, CHR 0x83, CHR 0xBC, CHR 0x3A, CHR 0x20]"

text \<open>
  \<open>test_connection\<close>, lines 49 to 65. \<open>session_get\<close> is \<open>self.session.get\<close>; the result
  is the list of the printed lines and the returned boolean. \<open>except Exception\<close> catches
  whatever the request raises.
\<close>

definition test_connection :: "(string \<Rightarrow> exn + Response) \<Rightarrow> string \<Rightarrow> string list \<times> bool" where
  "test_connection session_get server_url =
     (case session_get (server_url @ ''/rest/api/3/myself'') of
        Inl e \<Rightarrow> ([msg_connection_error @ exn_str e], False)
      | Inr response \<Rightarrow>
          (let printed = [msg_status_code @ show_int (status_code response)] in
           if status_code response = 401 then (printed @ [msg_auth_error], False)
           else if status_code response = 404 then (printed @ [msg_url_error], False)
           else if status_code response \<noteq> 200
           then (printed @ [msg_failed @ show_int (status_code response)], False)
           else (printed @ [msg_succeeded], status_code response = 200)))"

text \<open>
  \<open>for issue in issues\<close> on a decoded JSON value: a list gives its elements, a dictionary
  its keys, a string its characters (here its bytes), and any other value raises
  \<open>TypeError\<close>. A key or a character is a string, on which the body of the loop raises.
\<close>

fun py_iter :: "json \<Rightarrow> exn + json list" where
  "py_iter (JArr xs) = Inr xs"
| "py_iter (JObj kvs) = Inr (map (\<lambda>(k, v). JStr k) kvs)"
| "py_iter (JStr s) = Inr (map (\<lambda>c. JStr [c]) s)"
| "py_iter _ = Inl TypeError"

text \<open>The request body of \<open>_search_issues\<close>, lines 151 to 166.\<close>

definition search_payload :: "string \<Rightarrow> int \<Rightarrow> json" where
  "search_payload jql max_results =
     JObj [(''jql'', JStr jql),
           (''maxResults'', JInt max_results),
           (''fields'', JArr [JStr ''summary'', JStr ''status'', JStr ''assignee'',
                              JStr ''reporter'', JStr ''priority'', JStr ''created'',
                              JStr ''updated'', JStr ''duedate'', JStr ''project'',
                              JStr ''issuetype''])]"

text \<open>
  \<open>_search_issues\<close>, lines 149 to 177. \<open>session_post\<close> is \<open>self.session.post\<close>. The
  body of the \<open>try\<close> is \<open>search_issues_try\<close>; \<open>except requests.RequestException\<close>
  prints one line and returns the empty list, and any other exception leaves the
  function. The result is the list of the printed lines and what is returned or raised.
\<close>

definition search_issues_try ::
  "'dt pylib \<Rightarrow> (string \<Rightarrow> json \<Rightarrow> exn + Response) \<Rightarrow> string \<Rightarrow> string \<Rightarrow> int \<Rightarrow> exn + issue list" where
  "search_issues_try lib session_post server_url jql max_results =
     ebind (session_post (server_url @ ''/rest/api/3/search'') (search_payload jql max_results))
       (\<lambda>response.
     ebind (raise_for_status response) (\<lambda>u.
     ebind (json_body response) (\<lambda>data.
     ebind (py_get data ''issues'' (JArr [])) (\<lambda>issues.
     ebind (py_iter issues) (\<lambda>records.
       format_issues lib server_url records)))))"

definition search_issues ::
  "'dt pylib \<Rightarrow> (string \<Rightarrow> json \<Rightarrow> exn + Response) \<Rightarrow> string \<Rightarrow> string \<Rightarrow> int
     \<Rightarrow> string list \<times> (exn + issue list)" where
  "search_issues lib session_post server_url jql max_results =
     (case search_issues_try lib session_post server_url jql max_results of
        Inl (RequestException m) \<Rightarrow> ([msg_request_error @ m], Inr [])
      | Inl e \<Rightarrow> ([], Inl e)
      | Inr formatted \<Rightarrow> ([], Inr formatted))"

text \<open>The three entry points, each a query text handed to \<open>_search_issues\<close>.\<close>

definition get_my_issues ::
  "'dt pylib \<Rightarrow> (string \<Rightarrow> json \<Rightarrow> exn + Response) \<Rightarrow> string \<Rightarrow> string list option \<Rightarrow>
     string list option \<Rightarrow> int \<Rightarrow> string list \<times> (exn + issue list)" where
  "get_my_issues lib session_post server_url status_filter project_keys max_results =
     search_issues lib session_post server_url
       (get_my_issues_jql status_filter project_keys) max_results"

definition get_reported_by_me ::
  "'dt pylib \<Rightarrow> (string \<Rightarrow> json \<Rightarrow> exn + Response) \<Rightarrow> string \<Rightarrow> string list option \<Rightarrow> int
     \<Rightarrow> string list \<times> (exn + issue list)" where
  "get_reported_by_me lib session_post server_url status_filter max_results =
     search_issues lib session_post server_url (get_reported_by_me_jql status_filter) max_results"

definition get_recent_activity ::
  "'dt pylib \<Rightarrow> (string \<Rightarrow> json \<Rightarrow> exn + Response) \<Rightarrow> string \<Rightarrow> int \<Rightarrow> int
     \<Rightarrow> string list \<times> (exn + issue list)" where
  "get_recent_activity lib session_post server_url days max_results =
     search_issues lib session_post server_url (get_recent_activity_jql days) max_results"

section \<open>The turn runner (issue_analyzer_agent.py)\<close>

text \<open>
  What \<open>call_agent_async\<close> reads of an event of the agent runtime: whether it is the
  final response, its content with the list of parts, its actions with the escalation
  mark, and its error message. Each of them may be \<open>None\<close>.
\<close>

record Part =
  part_text :: "string option"

record Content =
  parts :: "Part list option"

record EventActions =
  escalate :: "bool option"

record Event =
  is_final_response :: bool
  content :: "Content option"
  actions :: "EventActions option"
  error_message :: "string option"

text \<open>
  The parts that \<open>event.content and event.content.parts\<close> finds: the condition holds
  exactly when this list is not empty.
\<close>

definition content_parts :: "Event \<Rightarrow> Part list" where
  "content_parts event =
     (case content event of
        None \<Rightarrow> []
      | Some c \<Rightarrow> (case parts c of None \<Rightarrow> [] | Some ps \<Rightarrow> ps))"

text \<open>\<open>event.actions and event.actions.escalate\<close>, read as a condition.\<close>

definition escalated :: "Event \<Rightarrow> bool" where
  "escalated event =
     (case actions event of
        None \<Rightarrow> False
      | Some a \<Rightarrow> escalate a = Some True)"

text \<open>\<open>event.error_message or 'No specific message.'\<close>\<close>

definition escalation_message :: "Event \<Rightarrow> string" where
  "escalation_message event =
     (case error_message event of
        None \<Rightarrow> ''No specific message.''
      | Some m \<Rightarrow> if m \<noteq> [] then m else ''No specific message.'')"

text \<open>
  The loop of lines 59 to 77 over the events that the runner yields. The result is the
  value of \<open>final_response_text\<close> when the loop is left and the events that were never
  asked for. The text of a part may be \<open>None\<close>, so the value is optional.
\<close>

fun events_loop :: "string option \<Rightarrow> Event list \<Rightarrow> string option \<times> Event list" where
  "events_loop final_response_text [] = (final_response_text, [])"
| "events_loop final_response_text (event # rest) =
     (if is_final_response event then
        (case content_parts event of
           p # ps \<Rightarrow> (part_text p, rest)
         | [] \<Rightarrow>
             if escalated event
             then (Some (''Agent escalated: '' @ escalation_message event), rest)
             else (final_response_text, rest))
      else events_loop final_response_text rest)"

definition final_response :: "Event list \<Rightarrow> string option \<times> Event list" where
  "final_response events = events_loop (Some ''Agent did not produce a final response.'') events"

text \<open>\<open>call_agent_async\<close>, lines 50 to 79: the two printed lines and the events left.\<close>

definition call_agent_async :: "string \<Rightarrow> Event list \<Rightarrow> string list \<times> Event list" where
  "call_agent_async query events =
     (case final_response events of
        (final_response_text, rest) \<Rightarrow>
          ([CHR 0x0A # ''>>> User Query: '' @ query,
            ''<<< Agent Response: '' @
              (case final_response_text of None \<Rightarrow> ''None'' | Some t \<Rightarrow> t)],
           rest))"

section \<open>Properties of the query construction\<close>

text \<open>
  C9. For the role assignee, the status set To Do, In Progress and no project filter,
  the query is exactly
  \<open>assignee = currentUser() AND status IN ('To Do', 'In Progress') ORDER BY created DESC\<close>.
\<close>

theorem C9_my_issues_todo_in_progress:
  "get_my_issues_jql (Some [''To Do'', ''In Progress'']) None =
     ''assignee = currentUser() AND status IN ('To Do', 'In Progress') ORDER BY created DESC''"
  by (simp add: get_my_issues_jql_def)


subsection \<open>Quoting of status values\<close>

lemma join_quoted:
  "xs \<noteq> [] \<Longrightarrow>
   join '', '' (map quoted xs) =
     CHR 0x27 # join [CHR 0x27, CHR '','', CHR '' '', CHR 0x27] xs @ [CHR 0x27]"
proof (induction xs rule: induct_list012)
  case 1
  then show ?case by simp
next
  case (2 x)
  show ?case by (simp add: quoted_def)
next
  case (3 x y zs)
  then have IH: "join '', '' (map quoted (y # zs)) =
      CHR 0x27 # join [CHR 0x27, CHR '','', CHR '' '', CHR 0x27] (y # zs) @ [CHR 0x27]"
    by simp
  have "join '', '' (map quoted (x # y # zs)) = quoted x @ '', '' @ join '', '' (map quoted (y # zs))"
    by simp
  also have "\<dots> = quoted x @ '', '' @
      (CHR 0x27 # join [CHR 0x27, CHR '','', CHR '' '', CHR 0x27] (y # zs) @ [CHR 0x27])"
    by (simp only: IH)
  also have "\<dots> = CHR 0x27 # join [CHR 0x27, CHR '','', CHR '' '', CHR 0x27] (x # y # zs) @ [CHR 0x27]"
    by (simp add: quoted_def)
  finally show ?case .
qed

text \<open>
  C4, as the code has it. For every non-empty status list, with or without a project
  filter, every status value is put between two single quotes, the values are separated
  by a comma and a space inside \<open>status IN (...)\<close>, and the value itself is neither
  inspected nor changed: a value holding the quote character is inserted as it is,
  neither rejected nor escaped. The same holds for \<open>get_reported_by_me\<close>.
\<close>

theorem C4_status_values_quoted_verbatim:
  "sts \<noteq> [] \<Longrightarrow>
   get_my_issues_jql (Some sts) project_keys =
     ''assignee = currentUser() AND status IN ('' @ join '', '' (map quoted sts) @ '')''
       @ (case project_keys of
            Some (p # ps) \<Rightarrow> '' AND project IN ('' @ join '', '' (map quoted (p # ps)) @ '')''
          | _ \<Rightarrow> [])
       @ '' ORDER BY created DESC'' \<and>
   get_reported_by_me_jql (Some sts) =
     ''reporter = currentUser() AND status IN ('' @ join '', '' (map quoted sts)
       @ '') ORDER BY created DESC''"
proof -
  assume "sts \<noteq> []"
  then obtain s ss where sts: "sts = s # ss"
    by (cases sts) auto
  have jq: "join '', '' (quoted x # map quoted xs) =
      CHR 0x27 # join [CHR 0x27, CHR '','', CHR '' '', CHR 0x27] (x # xs) @ [CHR 0x27]" for x xs
    using join_quoted [of "x # xs"] by simp
  have r: "get_reported_by_me_jql (Some sts) =
     ''reporter = currentUser() AND status IN ('' @ join '', '' (map quoted sts)
       @ '') ORDER BY created DESC''"
    by (simp add: sts get_reported_by_me_jql_def jq)
  have m: "get_my_issues_jql (Some sts) project_keys =
     ''assignee = currentUser() AND status IN ('' @ join '', '' (map quoted sts) @ '')''
       @ (case project_keys of
            Some (p # ps) \<Rightarrow> '' AND project IN ('' @ join '', '' (map quoted (p # ps)) @ '')''
          | _ \<Rightarrow> [])
       @ '' ORDER BY created DESC''"
  proof (cases project_keys)
    case None
    then show ?thesis by (simp add: sts get_my_issues_jql_def jq)
  next
    case (Some pk)
    show ?thesis
    proof (cases pk)
      case Nil
      with Some show ?thesis by (simp add: sts get_my_issues_jql_def jq)
    next
      case (Cons p ps)
      with Some show ?thesis by (simp add: sts get_my_issues_jql_def jq)
    qed
  qed
  from m r show ?thesis by (rule conjI)
qed

theorem C4_status_values_quoted_verbatim_witness:
  "[''To Do'', ''In Progress''] \<noteq> ([] :: string list) \<and>
   get_my_issues_jql (Some [''To Do'', ''In Progress'']) (Some [''P1'', ''P2'']) =
     ''assignee = currentUser() AND status IN ('To Do', 'In Progress') AND project IN ('P1', 'P2') ORDER BY created DESC'' \<and>
   get_my_issues_jql (Some [''It's done'', ''To Do'']) None =
     ''assignee = currentUser() AND status IN ('It's done', 'To Do') ORDER BY created DESC'' \<and>
   get_reported_by_me_jql (Some [''To Do'', ''In Progress'']) =
     ''reporter = currentUser() AND status IN ('To Do', 'In Progress') ORDER BY created DESC''"
  using C4_status_values_quoted_verbatim [of "[''To Do'', ''In Progress'']" "Some [''P1'', ''P2'']"]
    C4_status_values_quoted_verbatim [of "[''It's done'', ''To Do'']" None]
  by (simp add: quoted_def)

text \<open>
  The claim as stated fails: the status value \<open>O'Brien\<close> holds the quote character and
  reaches the query unchanged, between the two quotes the code adds.
\<close>

theorem C4_quote_passed_through:
  "CHR 0x27 \<in> set ''O'Brien'' \<and>
   get_my_issues_jql (Some [''O'Brien'']) None =
     ''assignee = currentUser() AND status IN ('O'Brien') ORDER BY created DESC''"
  by (simp add: get_my_issues_jql_def)

subsection \<open>The role disjunction of the recent-activity query\<close>

lemma digit_char_plain: "n < 10 \<Longrightarrow> digit_char n \<notin> {CHR ''('', CHR '')'', CHR '' ''}"
proof -
  assume "n < 10"
  then have "n < length ''0123456789''" by simp
  then have "''0123456789'' ! n \<in> set ''0123456789''" by (rule nth_mem)
  then show ?thesis unfolding digit_char_def by auto
qed

lemma show_nat_small: "n < 10 \<Longrightarrow> show_nat n = [digit_char n]"
  using show_nat.simps [of n] by simp

lemma show_nat_large: "\<not> n < 10 \<Longrightarrow> show_nat n = show_nat (n div 10) @ [digit_char (n mod 10)]"
  using show_nat.simps [of n] by simp

lemma show_nat_plain: "\<forall>c \<in> set (show_nat n). c \<notin> {CHR ''('', CHR '')'', CHR '' ''}"
proof (induction n rule: show_nat.induct)
  case (1 n)
  show ?case
  proof (cases "n < 10")
    case True
    then show ?thesis using digit_char_plain [of n] by (simp add: show_nat_small)
  next
    case False
    have "n mod 10 < 10" by simp
    then have "digit_char (n mod 10) \<notin> {CHR ''('', CHR '')'', CHR '' ''}" by (rule digit_char_plain)
    with False "1.IH" show ?thesis by (simp add: show_nat_large)
  qed
qed

lemma show_int_plain: "\<forall>c \<in> set (show_int i). c \<notin> {CHR ''('', CHR '')'', CHR '' ''}"
  using show_nat_plain by (simp add: show_int_def)

lemma occurs_skip:
  "\<forall>c \<in> set ds. c \<notin> {CHR ''('', CHR '')'', CHR '' ''} \<Longrightarrow>
   occurs_at_top (CHR '' '' # w) d (ds @ rest) = occurs_at_top (CHR '' '' # w) d rest"
  by (induction ds) auto

lemma or_not_top: "\<not> occurs_at_top '' OR '' 0 (get_recent_activity_jql days)"
proof -
  have "occurs_at_top '' OR '' 0 (show_int days @ ''d ORDER BY updated DESC'')
      = occurs_at_top '' OR '' 0 ''d ORDER BY updated DESC''"
    using show_int_plain by (rule occurs_skip)
  then show ?thesis by (simp add: get_recent_activity_jql_def)
qed

lemma and_top: "occurs_at_top '' AND '' 0 (get_recent_activity_jql days)"
  by (simp add: get_recent_activity_jql_def)

text \<open>
  C8. The recent-activity query, the only one with the two role predicates joined by OR,
  has the disjunction between parentheses, followed by AND and the time window: for every
  number of days the word OR never occurs outside parentheses, and the AND that joins the
  window does.
\<close>

theorem C8_role_disjunction_parenthesized:
  "get_recent_activity_jql days =
     ''('' @ ''assignee = currentUser() OR reporter = currentUser()'' @ '')''
       @ '' AND '' @ ''updated >= -'' @ show_int days @ ''d'' @ '' ORDER BY updated DESC'' \<and>
   \<not> occurs_at_top '' OR '' 0 (get_recent_activity_jql days) \<and>
   occurs_at_top '' AND '' 0 (get_recent_activity_jql days)"
proof -
  have "get_recent_activity_jql days =
     ''('' @ ''assignee = currentUser() OR reporter = currentUser()'' @ '')''
       @ '' AND '' @ ''updated >= -'' @ show_int days @ ''d'' @ '' ORDER BY updated DESC''"
    by (simp add: get_recent_activity_jql_def)
  with or_not_top and_top show ?thesis by blast
qed


section \<open>Properties of the normalization\<close>

lemma ebind_Inr [simp]: "ebind (Inr x) f = f x"
  by (simp add: ebind_def)

lemma ebind_Inl [simp]: "ebind (Inl e) f = Inl e"
  by (simp add: ebind_def)

lemma ebind_Inr_iff: "ebind m f = Inr y \<longleftrightarrow> (\<exists>x. m = Inr x \<and> f x = Inr y)"
  by (cases m) simp_all

subsection \<open>Assignee and reporter\<close>

lemma format_issue_users:
  "format_issue lib server_url raw = Inr i \<Longrightarrow>
   \<exists>fields. py_get raw ''fields'' (JObj []) = Inr fields \<and>
     ebind (py_get fields ''assignee'' JNull) get_user_display_name = Inr (assignee i) \<and>
     ebind (py_get fields ''reporter'' JNull) get_user_display_name = Inr (reporter i)"
  by (auto simp: format_issue_def ebind_Inr_iff)

lemma falsy_user: "\<not> truthy v \<Longrightarrow> get_user_display_name v = Inr (JStr unset_sentinel)"
  by (simp add: get_user_display_name_def)

lemma nameless_user:
  "u \<noteq> [] \<Longrightarrow> map_of u ''displayName'' = None \<Longrightarrow> map_of u ''emailAddress'' = None \<Longrightarrow>
   get_user_display_name (JObj u) = Inr (JStr unknown_sentinel)"
  by (simp add: get_user_display_name_def)

lemma user_absent:
  "map_of fs k = None \<Longrightarrow>
   ebind (py_get (JObj fs) k JNull) get_user_display_name = Inr (JStr unset_sentinel)"
  by (simp add: get_user_display_name_def)

lemma user_falsy:
  "map_of fs k = Some v \<Longrightarrow> \<not> truthy v \<Longrightarrow>
   ebind (py_get (JObj fs) k JNull) get_user_display_name = Inr (JStr unset_sentinel)"
  by (simp add: get_user_display_name_def)

lemma user_unknown:
  "map_of fs k = Some (JObj u) \<Longrightarrow> u \<noteq> [] \<Longrightarrow> map_of u ''displayName'' = None \<Longrightarrow>
   map_of u ''emailAddress'' = None \<Longrightarrow>
   ebind (py_get (JObj fs) k JNull) get_user_display_name = Inr (JStr unknown_sentinel)"
  by (simp add: get_user_display_name_def)

lemma sentinels_differ: "unset_sentinel \<noteq> unknown_sentinel"
  by (simp add: unset_sentinel_def unknown_sentinel_def)

lemma no_fields_users:
  "map_of items ''fields'' = None \<Longrightarrow>
   \<exists>i. format_issue lib server_url (JObj items) = Inr i \<and>
       assignee i = JStr unset_sentinel \<and> reporter i = JStr unset_sentinel"
  by (cases "map_of items ''key''")
    (simp_all add: format_issue_def get_user_display_name_def)

lemma name_ok:
  "(case map_of fs k of None \<Rightarrow> True | Some v \<Rightarrow> is_obj v) \<Longrightarrow>
   \<exists>n. ebind (py_get (JObj fs) k (JObj [])) (\<lambda>d. py_get d ''name'' JNull) = Inr n"
  by (auto simp: is_obj_def split: option.splits json.splits)

lemma user_ok:
  "(case map_of fs k of None \<Rightarrow> True | Some v \<Rightarrow> is_obj v \<or> \<not> truthy v) \<Longrightarrow>
   \<exists>n. ebind (py_get (JObj fs) k JNull) get_user_display_name = Inr n"
  by (auto simp: is_obj_def get_user_display_name_def split: option.splits json.splits)

lemma format_issue_fields_ok:
  assumes ws: "well_shaped_fields fs"
    and f: "py_get (JObj items) ''fields'' (JObj []) = Inr (JObj fs)"
  shows "\<exists>i. format_issue lib server_url (JObj items) = Inr i"
proof -
  obtain k where k: "py_get (JObj items) ''key'' JNull = Inr k"
    by simp
  obtain su where su: "py_get (JObj fs) ''summary'' JNull = Inr su"
    by simp
  obtain cr where cr: "py_get (JObj fs) ''created'' JNull = Inr cr"
    by simp
  obtain up where up: "py_get (JObj fs) ''updated'' JNull = Inr up"
    by simp
  obtain du where du: "py_get (JObj fs) ''duedate'' JNull = Inr du"
    by simp
  from ws obtain st where st:
    "ebind (py_get (JObj fs) ''status'' (JObj [])) (\<lambda>d. py_get d ''name'' JNull) = Inr st"
    using name_ok [of fs "''status''"] by (auto simp: well_shaped_fields_def)
  from ws obtain pr where pr:
    "ebind (py_get (JObj fs) ''priority'' (JObj [])) (\<lambda>d. py_get d ''name'' JNull) = Inr pr"
    using name_ok [of fs "''priority''"] by (auto simp: well_shaped_fields_def)
  from ws obtain pj where pj:
    "ebind (py_get (JObj fs) ''project'' (JObj [])) (\<lambda>d. py_get d ''name'' JNull) = Inr pj"
    using name_ok [of fs "''project''"] by (auto simp: well_shaped_fields_def)
  from ws obtain it where it:
    "ebind (py_get (JObj fs) ''issuetype'' (JObj [])) (\<lambda>d. py_get d ''name'' JNull) = Inr it"
    using name_ok [of fs "''issuetype''"] by (auto simp: well_shaped_fields_def)
  from ws obtain asg where asg:
    "ebind (py_get (JObj fs) ''assignee'' JNull) get_user_display_name = Inr asg"
    using user_ok [of fs "''assignee''"] by (auto simp: well_shaped_fields_def)
  from ws obtain rep where rep:
    "ebind (py_get (JObj fs) ''reporter'' JNull) get_user_display_name = Inr rep"
    using user_ok [of fs "''reporter''"] by (auto simp: well_shaped_fields_def)
  show ?thesis
    unfolding format_issue_def f k su cr up du st pr pj it asg rep ebind_Inr
    by (rule exI) (rule refl)
qed

text \<open>
  Missing keys are survived: a record that is a dictionary, whose \<open>fields\<close> is missing or
  a dictionary, and in which every nested object is missing or a dictionary (a user may
  also be any false value), is formatted.
\<close>

lemma format_issue_well_shaped:
  "well_shaped raw \<Longrightarrow> \<exists>i. format_issue lib server_url raw = Inr i"
proof -
  assume w: "well_shaped raw"
  then obtain items where raw: "raw = JObj items"
    by (cases raw) (simp_all add: well_shaped_def)
  show ?thesis
  proof (cases "map_of items ''fields''")
    case None
    have "well_shaped_fields []"
      by (simp add: well_shaped_fields_def)
    moreover from None have "py_get (JObj items) ''fields'' (JObj []) = Inr (JObj [])"
      by simp
    ultimately show ?thesis
      unfolding raw by (rule format_issue_fields_ok)
  next
    case (Some v)
    with w raw obtain fs where v: "v = JObj fs" and ws: "well_shaped_fields fs"
      by (cases v) (simp_all add: well_shaped_def)
    from Some v have "py_get (JObj items) ''fields'' (JObj []) = Inr (JObj fs)"
      by simp
    with ws show ?thesis
      unfolding raw by (rule format_issue_fields_ok)
  qed
qed


lemma example_no_fields:
  "format_issue std_lib ''https://x.example'' (JObj [(''key'', JStr ''A-0'')]) =
   Inr \<lparr> key = JStr ''A-0'', summary = JNull, status = JNull, priority = JNull,
         assignee = JStr unset_sentinel, reporter = JStr unset_sentinel, project = JNull,
         issue_type = JNull, created = JStr '''', updated = JStr '''', due_date = JStr '''',
         url = ''https://x.example/browse/A-0'' \<rparr>"
  by (simp add: format_issue_def get_user_display_name_def format_date_def py_str_def)

lemma example_users:
  "format_issue std_lib ''https://x.example''
     (JObj [(''key'', JStr ''A-1''),
            (''fields'', JObj [(''assignee'', JNull),
                               (''reporter'', JObj [(''accountId'', JStr ''7'')])])]) =
   Inr \<lparr> key = JStr ''A-1'', summary = JNull, status = JNull, priority = JNull,
         assignee = JStr unset_sentinel, reporter = JStr unknown_sentinel, project = JNull,
         issue_type = JNull, created = JStr '''', updated = JStr '''', due_date = JStr '''',
         url = ''https://x.example/browse/A-1'' \<rparr>"
  by (simp add: format_issue_def get_user_display_name_def format_date_def py_str_def)

lemma example_empty_user:
  "format_issue std_lib ''https://x.example''
     (JObj [(''key'', JStr ''A-2''), (''fields'', JObj [(''assignee'', JObj [])])]) =
   Inr \<lparr> key = JStr ''A-2'', summary = JNull, status = JNull, priority = JNull,
         assignee = JStr unset_sentinel, reporter = JStr unset_sentinel, project = JNull,
         issue_type = JNull, created = JStr '''', updated = JStr '''', due_date = JStr '''',
         url = ''https://x.example/browse/A-2'' \<rparr>"
  by (simp add: format_issue_def get_user_display_name_def format_date_def py_str_def)



subsection \<open>Dates\<close>

lemma parse_ok:
  "std_fromisoformat (replace_char CHR ''Z'' ''+00:00'' ''2024-01-15T10:30:00Z'') =
     Inr \<lparr> dt_year = 2024, dt_month = 1, dt_day = 15, dt_hour = 10, dt_minute = 30,
           dt_second = 0, dt_utcoffset = 0 \<rparr>"
  by (simp add: std_fromisoformat_def replace_char_def slice_def digit_val_def
      days_in_month_def is_leap_def)

lemma print_ok:
  "std_strftime \<lparr> dt_year = 2024, dt_month = 1, dt_day = 15, dt_hour = 10, dt_minute = 30,
           dt_second = 0, dt_utcoffset = 0 \<rparr> = Inr ''2024-01-15 10:30''"
  by (simp add: std_strftime_def pad2_def pad4_def digit_char_def)

lemma parse_fails:
  "std_fromisoformat (replace_char CHR ''Z'' ''+00:00'' ''not a date'') = Inl ValueError"
  by (simp add: std_fromisoformat_def replace_char_def)

lemma parse_fails_slashes:
  "std_fromisoformat (replace_char CHR ''Z'' ''+00:00'' ''15/01/2024'') = Inl ValueError"
  by (simp add: std_fromisoformat_def replace_char_def)

text \<open>
  C3, as the code has it. The date formatter never raises: its result is a value in every
  case. An absent or empty date gives the empty string. A string is parsed after every
  \<open>Z\<close> is replaced by \<open>+00:00\<close>, and when the library parses it the result is what
  \<open>strftime("%Y-%m-%d %H:%M")\<close> prints. When the library rejects the string, the
  \<open>except\<close> branch returns the input string unchanged, not the empty string.
\<close>

theorem C3_format_date:
  "(\<not> truthy d \<longrightarrow> format_date lib d = JStr '''') \<and>
   (s \<noteq> [] \<and> fromisoformat lib (replace_char CHR ''Z'' ''+00:00'' s) = Inr dt \<and>
      strftime_ymd_hm lib dt = Inr out \<longrightarrow> format_date lib (JStr s) = JStr out) \<and>
   (s \<noteq> [] \<and> fromisoformat lib (replace_char CHR ''Z'' ''+00:00'' s) = Inl e \<longrightarrow>
      format_date lib (JStr s) = JStr s)"
  by (simp add: format_date_def format_date_try_def)

theorem C3_format_date_witness:
  "format_date std_lib JNull = JStr '''' \<and>
   format_date std_lib (JStr ''2024-01-15T10:30:00Z'') = JStr ''2024-01-15 10:30'' \<and>
   format_date std_lib (JStr ''15/01/2024'') = JStr ''15/01/2024''"
proof -
  have p: "fromisoformat std_lib (replace_char CHR ''Z'' ''+00:00'' ''2024-01-15T10:30:00Z'') =
      Inr \<lparr> dt_year = 2024, dt_month = 1, dt_day = 15, dt_hour = 10, dt_minute = 30,
            dt_second = 0, dt_utcoffset = 0 \<rparr>"
    by (simp add: std_lib_def parse_ok)
  have q: "strftime_ymd_hm std_lib \<lparr> dt_year = 2024, dt_month = 1, dt_day = 15, dt_hour = 10,
      dt_minute = 30, dt_second = 0, dt_utcoffset = 0 \<rparr> = Inr ''2024-01-15 10:30''"
    by (simp add: std_lib_def std_strftime_def pad2_def pad4_def digit_char_def)
  have f: "fromisoformat std_lib (replace_char CHR ''Z'' ''+00:00'' ''15/01/2024'') = Inl ValueError"
    by (simp add: std_lib_def parse_fails_slashes)
  from C3_format_date [where d = JNull and lib = std_lib and s = "''2024-01-15T10:30:00Z''"
      and out = "''2024-01-15 10:30''"] p q
  have a: "format_date std_lib JNull = JStr '''' \<and>
      format_date std_lib (JStr ''2024-01-15T10:30:00Z'') = JStr ''2024-01-15 10:30''"
    by simp
  from C3_format_date [where d = JNull and lib = std_lib and s = "''15/01/2024''"
      and e = ValueError] f
  have "format_date std_lib (JStr ''15/01/2024'') = JStr ''15/01/2024''"
    by simp
  with a show ?thesis by simp
qed

text \<open>
  The claim as stated fails: for an input that is not a date the result is the input, not
  the empty string.
\<close>

theorem C3_unparseable_returned_unchanged:
  "format_date std_lib (JStr ''not a date'') = JStr ''not a date'' \<and>
   JStr ''not a date'' \<noteq> JStr ''''"
  by (simp add: format_date_def format_date_try_def std_lib_def parse_fails)



subsection \<open>The list of formatted issues\<close>

lemma loop_Inr:
  "format_issues_loop lib server_url acc xs = Inr out \<Longrightarrow>
   \<exists>ys. out = acc @ ys \<and> list_all2 (\<lambda>raw i. format_issue lib server_url raw = Inr i) xs ys"
proof (induction xs arbitrary: acc)
  case Nil
  then show ?case by simp
next
  case (Cons raw rest)
  from Cons.prems obtain fi where fi: "format_issue lib server_url raw = Inr fi"
    and rest: "format_issues_loop lib server_url (acc @ [fi]) rest = Inr out"
    by (auto simp: ebind_Inr_iff)
  from Cons.IH [OF rest] obtain ys where "out = (acc @ [fi]) @ ys"
    and "list_all2 (\<lambda>raw i. format_issue lib server_url raw = Inr i) rest ys"
    by blast
  with fi have "out = acc @ (fi # ys) \<and>
      list_all2 (\<lambda>raw i. format_issue lib server_url raw = Inr i) (raw # rest) (fi # ys)"
    by simp
  then show ?case by blast
qed

lemma loop_total:
  "\<forall>raw \<in> set xs. \<exists>i. format_issue lib server_url raw = Inr i \<Longrightarrow>
   \<exists>out. format_issues_loop lib server_url acc xs = Inr out"
proof (induction xs arbitrary: acc)
  case Nil
  then show ?case by simp
next
  case (Cons raw rest)
  then obtain fi where "format_issue lib server_url raw = Inr fi" by auto
  with Cons show ?case by simp
qed

lemma format_issue_empty:
  "format_issue lib server_url (JObj []) = Inr (fallback_issue server_url)"
  by (simp add: format_issue_def get_user_display_name_def format_date_def py_str_def
      fallback_issue_def)

lemma format_issue_key_only:
  "format_issue lib server_url (JObj [(''key'', JStr k)]) =
     Inr ((fallback_issue server_url) \<lparr> key := JStr k, url := server_url @ ''/browse/'' @ k \<rparr>)"
  by (simp add: format_issue_def get_user_display_name_def format_date_def py_str_def
      fallback_issue_def)

text \<open>
  Whenever \<open>_format_issues\<close> returns, the returned list has the length of the input and
  the issue at each position is the formatted record of the same position; and it returns
  whenever every record of the list can be formatted.
\<close>

lemma format_issues_positional:
  "(format_issues lib server_url issues = Inr out \<longrightarrow>
      length out = length issues \<and>
      (\<forall>n < length issues. format_issue lib server_url (issues ! n) = Inr (out ! n))) \<and>
   ((\<forall>raw \<in> set issues. \<exists>i. format_issue lib server_url raw = Inr i) \<longrightarrow>
      (\<exists>res. format_issues lib server_url issues = Inr res))"
proof (intro conjI impI)
  assume "format_issues lib server_url issues = Inr out"
  then have "list_all2 (\<lambda>raw i. format_issue lib server_url raw = Inr i) issues out"
    using loop_Inr [of lib server_url "[]" issues out] by (simp add: format_issues_def)
  then show "length out = length issues"
    and "\<forall>n < length issues. format_issue lib server_url (issues ! n) = Inr (out ! n)"
    by (simp_all add: list_all2_conv_all_nth)
next
  assume "\<forall>raw \<in> set issues. \<exists>i. format_issue lib server_url raw = Inr i"
  then show "\<exists>res. format_issues lib server_url issues = Inr res"
    unfolding format_issues_def by (rule loop_total)
qed

lemma format_issues_positional_example:
  "format_issues std_lib ''https://x.example'' [JObj [], JObj [(''key'', JStr ''A-1'')]] =
     Inr [fallback_issue ''https://x.example'',
          (fallback_issue ''https://x.example'')
            \<lparr> key := JStr ''A-1'', url := ''https://x.example/browse/A-1'' \<rparr>] \<and>
   length [fallback_issue ''https://x.example'',
          (fallback_issue ''https://x.example'')
            \<lparr> key := JStr ''A-1'', url := ''https://x.example/browse/A-1'' \<rparr>] =
     length [JObj [], JObj [(''key'', JStr ''A-1'')]] \<and>
   format_issue std_lib ''https://x.example'' (JObj [(''key'', JStr ''A-1'')]) =
     Inr ((fallback_issue ''https://x.example'')
            \<lparr> key := JStr ''A-1'', url := ''https://x.example/browse/A-1'' \<rparr>)"
proof -
  have e: "format_issues std_lib ''https://x.example'' [JObj [], JObj [(''key'', JStr ''A-1'')]] =
     Inr [fallback_issue ''https://x.example'',
          (fallback_issue ''https://x.example'')
            \<lparr> key := JStr ''A-1'', url := ''https://x.example/browse/A-1'' \<rparr>]"
    by (simp add: format_issues_def format_issue_empty format_issue_key_only)
  have t: "\<forall>raw \<in> set [JObj [], JObj [(''key'', JStr ''A-1'')]].
      \<exists>i. format_issue std_lib ''https://x.example'' raw = Inr i"
    by (simp add: format_issue_empty format_issue_key_only)
  note c = format_issues_positional [of std_lib "''https://x.example''"
      "[JObj [], JObj [(''key'', JStr ''A-1'')]]"
      "[fallback_issue ''https://x.example'',
          (fallback_issue ''https://x.example'')
            \<lparr> key := JStr ''A-1'', url := ''https://x.example/browse/A-1'' \<rparr>]"]
  from c e t have "\<forall>n < length [JObj [], JObj [(''key'', JStr ''A-1'')]].
      format_issue std_lib ''https://x.example'' ([JObj [], JObj [(''key'', JStr ''A-1'')]] ! n) =
      Inr ([fallback_issue ''https://x.example'',
          (fallback_issue ''https://x.example'')
            \<lparr> key := JStr ''A-1'', url := ''https://x.example/browse/A-1'' \<rparr>] ! n)"
    by blast
  from this [rule_format, of 1] e show ?thesis by simp
qed

text \<open>
  C10. The loop appends one issue for each record, in order, so a list that is returned
  has the length and the order of the input (\<open>format_issues_positional\<close>). But the call
  does not return for every content, which the claim requires: for a record whose
  \<open>priority\<close> is present with \<open>null\<close>, \<open>fields.get("priority", {})\<close> is \<open>None\<close>, the default
  standing in only for a missing key, and \<open>.get("name")\<close> on it raises \<open>AttributeError\<close>.
  The exception leaves the loop, and the records formatted before it are lost with it:
  for the list below no list of issues comes back.
\<close>

theorem C10_null_priority_raises:
  "format_issues std_lib ''https://x.example''
     [JObj [(''key'', JStr ''A-1'')],
      JObj [(''key'', JStr ''A-2''), (''fields'', JObj [(''priority'', JNull)])]] =
   Inl AttributeError"
  by (simp add: format_issues_def format_issue_def get_user_display_name_def format_date_def
      py_str_def)

subsection \<open>Records with a missing nested object\<close>

lemma py_get_raises: "py_get v k d = Inl e \<Longrightarrow> e = AttributeError"
  by (cases v) simp_all

lemma user_raises: "get_user_display_name v = Inl e \<Longrightarrow> e = AttributeError"
  by (auto simp: get_user_display_name_def ebind_def dest: py_get_raises
      split: if_splits sum.splits)

lemma format_issue_raises:
  "format_issue lib server_url raw = Inl e \<Longrightarrow> e = AttributeError"
  unfolding format_issue_def
  by (auto simp: ebind_def split: sum.splits dest: py_get_raises user_raises)

lemma format_issue_nested:
  "format_issue lib server_url raw = Inr i \<Longrightarrow>
   \<exists>fields. py_get raw ''fields'' (JObj []) = Inr fields \<and>
     ebind (py_get fields ''status'' (JObj [])) (\<lambda>d. py_get d ''name'' JNull) = Inr (status i) \<and>
     ebind (py_get fields ''priority'' (JObj [])) (\<lambda>d. py_get d ''name'' JNull) = Inr (priority i) \<and>
     ebind (py_get fields ''project'' (JObj [])) (\<lambda>d. py_get d ''name'' JNull) = Inr (project i) \<and>
     ebind (py_get fields ''issuetype'' (JObj [])) (\<lambda>d. py_get d ''name'' JNull) = Inr (issue_type i)"
  by (auto simp: format_issue_def ebind_Inr_iff)

lemma format_issue_plain:
  "format_issue lib server_url raw = Inr i \<Longrightarrow>
   \<exists>v. py_get raw ''fields'' (JObj []) = Inr v \<and>
     py_get raw ''key'' JNull = Inr (key i) \<and>
     url i = server_url @ ''/browse/'' @ py_str lib (key i) \<and>
     py_get v ''summary'' JNull = Inr (summary i) \<and>
     (\<exists>cr. py_get v ''created'' JNull = Inr cr \<and> created i = format_date lib cr) \<and>
     (\<exists>up. py_get v ''updated'' JNull = Inr up \<and> updated i = format_date lib up) \<and>
     (\<exists>du. py_get v ''duedate'' JNull = Inr du \<and> due_date i = format_date lib du)"
  by (auto simp: format_issue_def ebind_Inr_iff)

text \<open>
  In a formatted issue every field whose key is missing has its fallback: \<open>None\<close> for the
  key, the summary and the four names, the unset sentinel for the two users, the empty
  text for the three dates.
\<close>

lemma format_issue_missing_keys:
  assumes f: "format_issue lib server_url (JObj items) = Inr i"
    and m: "map_of items ''fields'' = Some (JObj fs)"
  shows "map_of items ''key'' = None \<longrightarrow>
           key i = JNull \<and> url i = server_url @ ''/browse/None''"
    and "map_of fs ''summary'' = None \<longrightarrow> summary i = JNull"
    and "map_of fs ''status'' = None \<longrightarrow> status i = JNull"
    and "map_of fs ''priority'' = None \<longrightarrow> priority i = JNull"
    and "map_of fs ''assignee'' = None \<longrightarrow> assignee i = JStr unset_sentinel"
    and "map_of fs ''reporter'' = None \<longrightarrow> reporter i = JStr unset_sentinel"
    and "map_of fs ''project'' = None \<longrightarrow> project i = JNull"
    and "map_of fs ''issuetype'' = None \<longrightarrow> issue_type i = JNull"
    and "map_of fs ''created'' = None \<longrightarrow> created i = JStr ''''"
    and "map_of fs ''updated'' = None \<longrightarrow> updated i = JStr ''''"
    and "map_of fs ''duedate'' = None \<longrightarrow> due_date i = JStr ''''"
proof -
  from format_issue_plain [OF f] m
  have k: "py_get (JObj items) ''key'' JNull = Inr (key i)"
    and u: "url i = server_url @ ''/browse/'' @ py_str lib (key i)"
    and su: "py_get (JObj fs) ''summary'' JNull = Inr (summary i)"
    and cr: "\<exists>cr. py_get (JObj fs) ''created'' JNull = Inr cr \<and> created i = format_date lib cr"
    and up: "\<exists>up. py_get (JObj fs) ''updated'' JNull = Inr up \<and> updated i = format_date lib up"
    and du: "\<exists>du. py_get (JObj fs) ''duedate'' JNull = Inr du \<and> due_date i = format_date lib du"
    by auto
  from format_issue_nested [OF f] m
  have st: "ebind (py_get (JObj fs) ''status'' (JObj [])) (\<lambda>d. py_get d ''name'' JNull) = Inr (status i)"
    and pr: "ebind (py_get (JObj fs) ''priority'' (JObj [])) (\<lambda>d. py_get d ''name'' JNull) = Inr (priority i)"
    and pj: "ebind (py_get (JObj fs) ''project'' (JObj [])) (\<lambda>d. py_get d ''name'' JNull) = Inr (project i)"
    and it: "ebind (py_get (JObj fs) ''issuetype'' (JObj [])) (\<lambda>d. py_get d ''name'' JNull) = Inr (issue_type i)"
    by auto
  from format_issue_users [OF f] m
  have a: "ebind (py_get (JObj fs) ''assignee'' JNull) get_user_display_name = Inr (assignee i)"
    and r: "ebind (py_get (JObj fs) ''reporter'' JNull) get_user_display_name = Inr (reporter i)"
    by auto
  show "map_of items ''key'' = None \<longrightarrow>
           key i = JNull \<and> url i = server_url @ ''/browse/None''"
    using k u by (auto simp: py_str_def)
  show "map_of fs ''summary'' = None \<longrightarrow> summary i = JNull"
    using su by auto
  show "map_of fs ''status'' = None \<longrightarrow> status i = JNull"
    using st by auto
  show "map_of fs ''priority'' = None \<longrightarrow> priority i = JNull"
    using pr by auto
  show "map_of fs ''assignee'' = None \<longrightarrow> assignee i = JStr unset_sentinel"
    using a user_absent [of fs "''assignee''"] by auto
  show "map_of fs ''reporter'' = None \<longrightarrow> reporter i = JStr unset_sentinel"
    using r user_absent [of fs "''reporter''"] by auto
  show "map_of fs ''project'' = None \<longrightarrow> project i = JNull"
    using pj by auto
  show "map_of fs ''issuetype'' = None \<longrightarrow> issue_type i = JNull"
    using it by auto
  show "map_of fs ''created'' = None \<longrightarrow> created i = JStr ''''"
    using cr by (auto simp: format_date_def)
  show "map_of fs ''updated'' = None \<longrightarrow> updated i = JStr ''''"
    using up by (auto simp: format_date_def)
  show "map_of fs ''duedate'' = None \<longrightarrow> due_date i = JStr ''''"
    using du by (auto simp: format_date_def)
qed

text \<open>
  C2. The claim asks that no record with missing nested fields makes the normalization
  raise. A nested object that is missing as a key is survived: \<open>fields.get(k, {})\<close>
  puts the empty dictionary in its place and the field gets its fallback
  (\<open>format_issue_well_shaped\<close>, \<open>format_issue_missing_keys\<close>). A nested object that
  is missing as a value, the field being present with \<open>null\<close>, is not: the default
  stands in only for a missing key, \<open>fields.get(k, {})\<close> is \<open>None\<close>, and
  \<open>.get("name")\<close> on it raises. For each of status, priority, project and issuetype, a
  record in which the field is \<open>null\<close> is not formatted; the call raises
  \<open>AttributeError\<close>, whatever else the record holds.
\<close>

theorem C2_null_nested_object_raises:
  "map_of items ''fields'' = Some (JObj fs) \<Longrightarrow>
   k \<in> {''status'', ''priority'', ''project'', ''issuetype''} \<Longrightarrow>
   map_of fs k = Some JNull \<Longrightarrow>
   format_issue lib server_url (JObj items) = Inl AttributeError"
proof -
  assume m: "map_of items ''fields'' = Some (JObj fs)"
    and k: "k \<in> {''status'', ''priority'', ''project'', ''issuetype''}"
    and n: "map_of fs k = Some JNull"
  have r: "ebind (py_get (JObj fs) k (JObj [])) (\<lambda>d. py_get d ''name'' JNull) = Inl AttributeError"
    using n by simp
  show ?thesis
  proof (cases "format_issue lib server_url (JObj items)")
    case (Inl e)
    then show ?thesis using format_issue_raises [of lib server_url "JObj items" e] by simp
  next
    case (Inr i)
    from format_issue_nested [OF Inr] m
    have "ebind (py_get (JObj fs) ''status'' (JObj [])) (\<lambda>d. py_get d ''name'' JNull) = Inr (status i)"
      and "ebind (py_get (JObj fs) ''priority'' (JObj [])) (\<lambda>d. py_get d ''name'' JNull) = Inr (priority i)"
      and "ebind (py_get (JObj fs) ''project'' (JObj [])) (\<lambda>d. py_get d ''name'' JNull) = Inr (project i)"
      and "ebind (py_get (JObj fs) ''issuetype'' (JObj [])) (\<lambda>d. py_get d ''name'' JNull) = Inr (issue_type i)"
      by auto
    with r k show ?thesis by auto
  qed
qed

theorem C2_null_nested_object_raises_witness:
  "format_issue std_lib ''https://x.example''
     (JObj [(''key'', JStr ''A-2''),
            (''fields'', JObj [(''summary'', JStr ''Fix login''), (''priority'', JNull)])]) =
   Inl AttributeError \<and>
   format_issue std_lib ''https://x.example''
     (JObj [(''key'', JStr ''A-3''),
            (''fields'', JObj [(''status'', JNull),
                               (''priority'', JObj [(''name'', JStr ''High'')])])]) =
   Inl AttributeError"
  using C2_null_nested_object_raises [of
      "[(''key'', JStr ''A-2''),
        (''fields'', JObj [(''summary'', JStr ''Fix login''), (''priority'', JNull)])]"
      "[(''summary'', JStr ''Fix login''), (''priority'', JNull)]" "''priority''"
      std_lib "''https://x.example''"]
    C2_null_nested_object_raises [of
      "[(''key'', JStr ''A-3''),
        (''fields'', JObj [(''status'', JNull), (''priority'', JObj [(''name'', JStr ''High'')])])]"
      "[(''status'', JNull), (''priority'', JObj [(''name'', JStr ''High'')])]" "''status''"
      std_lib "''https://x.example''"]
  by simp

section \<open>Properties of the connectivity check and of the search\<close>

lemma msgs_distinct:
  "distinct [msg_succeeded, msg_auth_error, msg_url_error, msg_failed @ s]"
  by (simp add: msg_succeeded_def msg_auth_error_def msg_url_error_def msg_failed_def)

text \<open>
  C6, as the code has it. \<open>test_connection\<close> returns a boolean: \<open>True\<close> for the status
  code 200 and \<open>False\<close> for every other one, and \<open>False\<close> when the request raises. What
  tells success, authentication failure, wrong address and any other failure apart is the
  second printed line, one of four texts that differ from one another; the first printed
  line gives the status code.
\<close>

theorem C6_connection_outcomes:
  "(session_get (server_url @ ''/rest/api/3/myself'') = Inr r \<longrightarrow>
      snd (test_connection session_get server_url) = (status_code r = 200) \<and>
      fst (test_connection session_get server_url) =
        [msg_status_code @ show_int (status_code r),
         if status_code r = 200 then msg_succeeded
         else if status_code r = 401 then msg_auth_error
         else if status_code r = 404 then msg_url_error
         else msg_failed @ show_int (status_code r)] \<and>
      distinct [msg_succeeded, msg_auth_error, msg_url_error,
                msg_failed @ show_int (status_code r)]) \<and>
   (session_get (server_url @ ''/rest/api/3/myself'') = Inl e \<longrightarrow>
      test_connection session_get server_url = ([msg_connection_error @ exn_str e], False))"
proof (intro conjI impI)
  assume g: "session_get (server_url @ ''/rest/api/3/myself'') = Inr r"
  show "snd (test_connection session_get server_url) = (status_code r = 200)"
    by (simp add: test_connection_def g Let_def)
  show "fst (test_connection session_get server_url) =
        [msg_status_code @ show_int (status_code r),
         if status_code r = 200 then msg_succeeded
         else if status_code r = 401 then msg_auth_error
         else if status_code r = 404 then msg_url_error
         else msg_failed @ show_int (status_code r)]"
    by (simp add: test_connection_def g Let_def)
  show "distinct [msg_succeeded, msg_auth_error, msg_url_error,
                msg_failed @ show_int (status_code r)]"
    by (rule msgs_distinct)
next
  assume "session_get (server_url @ ''/rest/api/3/myself'') = Inl e"
  then show "test_connection session_get server_url = ([msg_connection_error @ exn_str e], False)"
    by (simp add: test_connection_def)
qed

theorem C6_connection_outcomes_witness:
  "map (\<lambda>code. snd (test_connection
          (\<lambda>address. Inr (std_response code ''reason'' address (Inr JNull))) ''https://x.example''))
     [200, 401, 404, 500] = [True, False, False, False] \<and>
   map (\<lambda>code. fst (test_connection
          (\<lambda>address. Inr (std_response code ''reason'' address (Inr JNull))) ''https://x.example'') ! 1)
     [200, 401, 404, 500] =
     [msg_succeeded, msg_auth_error, msg_url_error, msg_failed @ show_int 500] \<and>
   distinct [msg_succeeded, msg_auth_error, msg_url_error, msg_failed @ show_int 500] \<and>
   test_connection (\<lambda>address. Inl (RequestException ''refused'')) ''https://x.example'' =
     ([msg_connection_error @ ''refused''], False)"
  using
    C6_connection_outcomes [of "\<lambda>address. Inr (std_response 200 ''reason'' address (Inr JNull))"
      "''https://x.example''"
      "std_response 200 ''reason'' ''https://x.example/rest/api/3/myself'' (Inr JNull)"]
    C6_connection_outcomes [of "\<lambda>address. Inr (std_response 401 ''reason'' address (Inr JNull))"
      "''https://x.example''"
      "std_response 401 ''reason'' ''https://x.example/rest/api/3/myself'' (Inr JNull)"]
    C6_connection_outcomes [of "\<lambda>address. Inr (std_response 404 ''reason'' address (Inr JNull))"
      "''https://x.example''"
      "std_response 404 ''reason'' ''https://x.example/rest/api/3/myself'' (Inr JNull)"]
    C6_connection_outcomes [of "\<lambda>address. Inr (std_response 500 ''reason'' address (Inr JNull))"
      "''https://x.example''"
      "std_response 500 ''reason'' ''https://x.example/rest/api/3/myself'' (Inr JNull)"]
    C6_connection_outcomes [of "\<lambda>address. Inl (RequestException ''refused'')"
      "''https://x.example''" _ "RequestException ''refused''"]
  by (simp add: std_response_def)

text \<open>
  The claim as stated fails: the three failures are not told apart by what the operation
  returns. For the status codes 401, 404 and 500 it returns the same value, \<open>False\<close>.
\<close>

theorem C6_failures_return_the_same:
  "map (\<lambda>code. snd (test_connection
          (\<lambda>address. Inr (std_response code ''reason'' address (Inr JNull))) ''https://x.example''))
     [401, 404, 500] = [False, False, False]"
  by (simp add: test_connection_def std_response_def Let_def)



section \<open>Properties of the turn runner\<close>

lemma events_loop_no_final:
  "\<forall>e \<in> set evs. \<not> is_final_response e \<Longrightarrow> events_loop t evs = (t, [])"
  by (induction evs) simp_all

lemma events_loop_skip:
  "\<forall>e \<in> set pre. \<not> is_final_response e \<Longrightarrow>
   events_loop t (pre @ evs) = events_loop t evs"
  by (induction pre) simp_all

text \<open>
  C5, as the code has it. On every finite sequence of events the loop ends with a value
  for the response text. With no event marked final it is the default text. Otherwise
  the first event marked final decides, and no event after it is consumed: when it has
  content parts, the value is the text of the first part; when it has none and carries
  an escalation, the value is \<open>Agent escalated: \<close> followed by the error message, or
  by the placeholder when the message is absent or empty; when it has neither, the value
  stays the default text. \<open>call_agent_async\<close> prints that value.
\<close>

theorem C5_turn_outcome:
  "fst (call_agent_async query evs) =
     [CHR 0x0A # ''>>> User Query: '' @ query,
      ''<<< Agent Response: '' @
        (case fst (final_response evs) of None \<Rightarrow> ''None'' | Some t \<Rightarrow> t)] \<and>
   snd (call_agent_async query evs) = snd (final_response evs) \<and>
   ((\<forall>e \<in> set evs. \<not> is_final_response e) \<longrightarrow>
      final_response evs = (Some ''Agent did not produce a final response.'', [])) \<and>
   ((\<forall>e \<in> set pre. \<not> is_final_response e) \<and> is_final_response e \<longrightarrow>
      (\<forall>p ps. content_parts e = p # ps \<longrightarrow>
         final_response (pre @ e # post) = (part_text p, post)) \<and>
      (\<forall>m. content_parts e = [] \<and> escalated e \<and> error_message e = Some m \<and> m \<noteq> [] \<longrightarrow>
         final_response (pre @ e # post) = (Some (''Agent escalated: '' @ m), post)) \<and>
      (content_parts e = [] \<and> escalated e \<and>
       (error_message e = None \<or> error_message e = Some []) \<longrightarrow>
         final_response (pre @ e # post) =
           (Some ''Agent escalated: No specific message.'', post)) \<and>
      (content_parts e = [] \<and> \<not> escalated e \<longrightarrow>
         final_response (pre @ e # post) =
           (Some ''Agent did not produce a final response.'', post)))"
proof -
  have p1: "fst (call_agent_async query evs) =
     [CHR 0x0A # ''>>> User Query: '' @ query,
      ''<<< Agent Response: '' @
        (case fst (final_response evs) of None \<Rightarrow> ''None'' | Some t \<Rightarrow> t)]"
    by (cases "final_response evs") (simp add: call_agent_async_def)
  have p2: "snd (call_agent_async query evs) = snd (final_response evs)"
    by (cases "final_response evs") (simp add: call_agent_async_def)
  have p3: "(\<forall>e \<in> set evs. \<not> is_final_response e) \<longrightarrow>
      final_response evs = (Some ''Agent did not produce a final response.'', [])"
    by (simp add: final_response_def events_loop_no_final)
  have p4: "(\<forall>p ps. content_parts e = p # ps \<longrightarrow>
         final_response (pre @ e # post) = (part_text p, post)) \<and>
      (\<forall>m. content_parts e = [] \<and> escalated e \<and> error_message e = Some m \<and> m \<noteq> [] \<longrightarrow>
         final_response (pre @ e # post) = (Some (''Agent escalated: '' @ m), post)) \<and>
      (content_parts e = [] \<and> escalated e \<and>
       (error_message e = None \<or> error_message e = Some []) \<longrightarrow>
         final_response (pre @ e # post) =
           (Some ''Agent escalated: No specific message.'', post)) \<and>
      (content_parts e = [] \<and> \<not> escalated e \<longrightarrow>
         final_response (pre @ e # post) =
           (Some ''Agent did not produce a final response.'', post))"
    if n: "\<forall>e \<in> set pre. \<not> is_final_response e" and f: "is_final_response e"
  proof -
    have s: "final_response (pre @ e # post) =
        events_loop (Some ''Agent did not produce a final response.'') (e # post)"
      unfolding final_response_def using n by (rule events_loop_skip)
    show ?thesis
      unfolding s using f by (auto simp: escalation_message_def)
  qed
  show ?thesis
    apply (rule conjI, rule p1)
    apply (rule conjI, rule p2)
    apply (rule conjI, rule p3)
    apply (rule impI, erule conjE, erule (1) p4)
    done
qed

theorem C5_turn_outcome_witness:
  "(let thinking = \<lparr> is_final_response = False,
                      content = Some \<lparr> parts = Some [\<lparr> part_text = Some ''thinking'' \<rparr>] \<rparr>,
                      actions = None, error_message = None \<rparr>;
        answer = \<lparr> is_final_response = True,
                   content = Some \<lparr> parts = Some [\<lparr> part_text = Some ''hello'' \<rparr>,
                                                 \<lparr> part_text = Some ''more'' \<rparr>] \<rparr>,
                   actions = None, error_message = None \<rparr>;
        failed = \<lparr> is_final_response = True, content = None,
                   actions = Some \<lparr> escalate = Some True \<rparr>, error_message = Some ''boom'' \<rparr>;
        silent = \<lparr> is_final_response = True, content = Some \<lparr> parts = Some [] \<rparr>,
                   actions = Some \<lparr> escalate = Some True \<rparr>, error_message = None \<rparr>;
        empty = \<lparr> is_final_response = True, content = None,
                  actions = Some \<lparr> escalate = None \<rparr>, error_message = Some ''unused'' \<rparr>
    in final_response [thinking, thinking] =
         (Some ''Agent did not produce a final response.'', []) \<and>
       final_response [thinking, answer, failed] = (Some ''hello'', [failed]) \<and>
       final_response [thinking, failed, answer] = (Some ''Agent escalated: boom'', [answer]) \<and>
       final_response [silent] = (Some ''Agent escalated: No specific message.'', []) \<and>
       final_response [empty, answer] =
         (Some ''Agent did not produce a final response.'', [answer]) \<and>
       call_agent_async ''hi'' [thinking, answer, failed] =
         ([CHR 0x0A # ''>>> User Query: hi'', ''<<< Agent Response: hello''], [failed]))"
proof -
  let ?thinking = "\<lparr> is_final_response = False,
                      content = Some \<lparr> parts = Some [\<lparr> part_text = Some ''thinking'' \<rparr>] \<rparr>,
                      actions = None, error_message = None \<rparr>"
  let ?answer = "\<lparr> is_final_response = True,
                   content = Some \<lparr> parts = Some [\<lparr> part_text = Some ''hello'' \<rparr>,
                                                 \<lparr> part_text = Some ''more'' \<rparr>] \<rparr>,
                   actions = None, error_message = None \<rparr>"
  let ?failed = "\<lparr> is_final_response = True, content = None,
                   actions = Some \<lparr> escalate = Some True \<rparr>, error_message = Some ''boom'' \<rparr>"
  let ?silent = "\<lparr> is_final_response = True, content = Some \<lparr> parts = Some [] \<rparr>,
                   actions = Some \<lparr> escalate = Some True \<rparr>, error_message = None \<rparr>"
  let ?empty = "\<lparr> is_final_response = True, content = None,
                  actions = Some \<lparr> escalate = None \<rparr>, error_message = Some ''unused'' \<rparr>"
  have a: "final_response [?thinking, ?thinking] =
         (Some ''Agent did not produce a final response.'', [])"
    using C5_turn_outcome [of _ "[?thinking, ?thinking]" "[]" ?answer] by simp
  have b: "final_response [?thinking, ?answer, ?failed] = (Some ''hello'', [?failed])"
    using C5_turn_outcome [of _ "[]" "[?thinking]" ?answer "[?failed]"]
    by (simp add: content_parts_def)
  have c: "final_response [?thinking, ?failed, ?answer] = (Some ''Agent escalated: boom'', [?answer])"
    using C5_turn_outcome [of _ "[]" "[?thinking]" ?failed "[?answer]"]
    by (simp add: content_parts_def escalated_def)
  have d: "final_response [?silent] = (Some ''Agent escalated: No specific message.'', [])"
    using C5_turn_outcome [of _ "[]" "[]" ?silent "[]"]
    by (simp add: content_parts_def escalated_def)
  have e: "final_response [?empty, ?answer] =
         (Some ''Agent did not produce a final response.'', [?answer])"
    using C5_turn_outcome [of _ "[]" "[]" ?empty "[?answer]"]
    by (simp add: content_parts_def escalated_def)
  have f: "call_agent_async ''hi'' [?thinking, ?answer, ?failed] =
         ([CHR 0x0A # ''>>> User Query: hi'', ''<<< Agent Response: hello''], [?failed])"
    using C5_turn_outcome [of "''hi''" "[?thinking, ?answer, ?failed]" "[]" ?answer] b
    by (simp add: prod_eq_iff)
  from a b c d e f show ?thesis
    unfolding Let_def by (intro conjI)
qed

text \<open>
  The claim as stated fails for a final event that carries an escalation and has content
  parts as well: the escalation is looked at only when there are no content parts, so the
  value is the text of the first part and the error message is not reported.
\<close>

theorem C5_content_hides_escalation:
  "(let both = \<lparr> is_final_response = True,
                 content = Some \<lparr> parts = Some [\<lparr> part_text = Some ''hello'' \<rparr>] \<rparr>,
                 actions = Some \<lparr> escalate = Some True \<rparr>, error_message = Some ''boom'' \<rparr>
    in is_final_response both \<and> escalated both \<and>
       final_response [both] = (Some ''hello'', []) \<and>
       call_agent_async ''hi'' [both] =
         ([CHR 0x0A # ''>>> User Query: hi'', ''<<< Agent Response: hello''], []))"
  by (simp add: final_response_def call_agent_async_def content_parts_def escalated_def)

end
